theory Spec2Isabelle
  imports Main "HOL-Library.AList"
begin

section \<open>JavaScript values\<close>

text \<open>
  The values that travel through \<^verbatim>\<open>websocket-server.js\<close>: event payload fields,
  the properties of the objects stored in \<^verbatim>\<open>activeUsers\<close>, bind parameters and
  columns of rows. They are primitive values. Numbers are whole numbers and NaN: every
  number the server compares is an account id, a ticket id or a count. \<open>JNum n\<close> stands
  for a JavaScript number when \<open>n\<close> lies between \<open>- 2 ^ 53\<close> and \<open>2 ^ 53\<close>, where every
  whole number is a double and a template literal writes it in plain digits; beyond that
  range it is outside this value model.
\<close>

datatype jsval = JUndefined | JNull | JBool bool | JNum int | JNaN | JStr string

text \<open>A plain object: its own properties in insertion order.\<close>

type_synonym obj = "(string \<times> jsval) list"

text \<open>Reading a property (also by destructuring): a missing one reads \<^verbatim>\<open>undefined\<close>.\<close>

definition js_get :: "obj \<Rightarrow> string \<Rightarrow> jsval" where
  "js_get ob k = (case map_of ob k of None \<Rightarrow> JUndefined | Some v \<Rightarrow> v)"

text \<open>Assigning a property, \<^verbatim>\<open>ob.k = v\<close>.\<close>

definition js_put :: "obj \<Rightarrow> string \<Rightarrow> jsval \<Rightarrow> obj" where
  "js_put ob k v = AList.update k v ob"

text \<open>Truthiness, as \<^verbatim>\<open>if (v)\<close>, \<^verbatim>\<open>!v\<close>, \<^verbatim>\<open>v || w\<close> and \<^verbatim>\<open>Boolean(v)\<close> read it.\<close>

fun truthy :: "jsval \<Rightarrow> bool" where
  "truthy JUndefined = False"
| "truthy JNull = False"
| "truthy (JBool b) = b"
| "truthy (JNum n) = (n \<noteq> 0)"
| "truthy JNaN = False"
| "truthy (JStr s) = (s \<noteq> [])"

definition js_Boolean :: "jsval \<Rightarrow> jsval" where
  "js_Boolean v = JBool (truthy v)"

definition js_or :: "jsval \<Rightarrow> jsval \<Rightarrow> jsval" where
  "js_or a b = (if truthy a then a else b)"

text \<open>Strict equality \<^verbatim>\<open>===\<close>: same type and same value, and NaN equals nothing.\<close>

definition strict_eq :: "jsval \<Rightarrow> jsval \<Rightarrow> bool" where
  "strict_eq a b = (a = b \<and> a \<noteq> JNaN)"

subsection \<open>\<^verbatim>\<open>Number(v)\<close>\<close>

text \<open>
  \<open>js_Number\<close> is \<^verbatim>\<open>Number\<close> on the values that are not strings and on the strings of
  decimal digits, with an optional sign and ASCII white space around them, whose value is
  at most \<open>2 ^ 53\<close>. \<^verbatim>\<open>Number\<close> also reads fractions, exponents, radix prefixes,
  \<^verbatim>\<open>Infinity\<close> and other white space, and rounds longer digit strings to a double;
  such strings are outside this value model (\<open>StringToNumber\<close> answers NaN, or the unrounded
  number, for them). A statement below that depends on what a string reads as is stated
  for plain ids only (\<open>id_of\<close>), or at concrete strings of digits.

  A decimal digit's value, from its character code.
\<close>

definition digit_val :: "char \<Rightarrow> nat option" where
  "digit_val c =
     (let code = (of_char c :: nat) in if 48 \<le> code \<and> code \<le> 57 then Some (code - 48) else None)"

fun digits_val :: "nat \<Rightarrow> string \<Rightarrow> nat option" where
  "digits_val acc [] = Some acc"
| "digits_val acc (c # cs) =
     (case digit_val c of None \<Rightarrow> None | Some d \<Rightarrow> digits_val (10 * acc + d) cs)"

definition is_space :: "char \<Rightarrow> bool" where
  "is_space c = (c = CHR '' '' \<or> c = CHR 0x09 \<or> c = CHR 0x0A \<or> c = CHR 0x0B
     \<or> c = CHR 0x0C \<or> c = CHR 0x0D)"

definition trim :: "string \<Rightarrow> string" where
  "trim s = rev (dropWhile is_space (rev (dropWhile is_space s)))"

definition unsigned_dec :: "string \<Rightarrow> int option" where
  "unsigned_dec s = (if s = [] then None else map_option int (digits_val 0 s))"

definition StringToNumber :: "string \<Rightarrow> jsval" where
  "StringToNumber s =
     (case trim s of
        [] \<Rightarrow> JNum 0
      | c # cs \<Rightarrow>
          (if c = CHR ''-'' then (case unsigned_dec cs of None \<Rightarrow> JNaN | Some n \<Rightarrow> JNum (- n))
           else if c = CHR ''+'' then (case unsigned_dec cs of None \<Rightarrow> JNaN | Some n \<Rightarrow> JNum n)
           else (case unsigned_dec (c # cs) of None \<Rightarrow> JNaN | Some n \<Rightarrow> JNum n)))"

fun js_Number :: "jsval \<Rightarrow> jsval" where
  "js_Number JUndefined = JNaN"
| "js_Number JNull = JNum 0"
| "js_Number (JBool b) = JNum (if b then 1 else 0)"
| "js_Number (JNum n) = JNum n"
| "js_Number JNaN = JNaN"
| "js_Number (JStr s) = StringToNumber s"

subsection \<open>Template literals\<close>

definition digit_char :: "nat \<Rightarrow> char" where
  "digit_char d = ''0123456789'' ! d"

fun dec_of_nat :: "nat \<Rightarrow> string" where
  "dec_of_nat n = (if n < 10 then [digit_char n] else dec_of_nat (n div 10) @ [digit_char (n mod 10)])"

declare dec_of_nat.simps [simp del]

definition dec_of_int :: "int \<Rightarrow> string" where
  "dec_of_int i = (if i < 0 then CHR ''-'' # dec_of_nat (nat (- i)) else dec_of_nat (nat i))"

text \<open>
  What \<^verbatim>\<open>`${v}`\<close> interpolates. A number is written in plain digits, as JavaScript
  writes the whole numbers of the value model (it turns to exponent notation from
  \<^verbatim>\<open>1e21\<close> on, beyond the model's range).
\<close>

fun js_String :: "jsval \<Rightarrow> string" where
  "js_String JUndefined = ''undefined''"
| "js_String JNull = ''null''"
| "js_String (JBool b) = (if b then ''true'' else ''false'')"
| "js_String (JNum n) = dec_of_int n"
| "js_String JNaN = ''NaN''"
| "js_String (JStr s) = s"

text \<open>The room of a ticket, \<^verbatim>\<open>`ticket_${ticketId}`\<close>.\<close>

definition roomName :: "jsval \<Rightarrow> string" where
  "roomName ticketId = ''ticket_'' @ js_String ticketId"

section \<open>Server state\<close>

text \<open>
  \<^verbatim>\<open>activeUsers\<close> is a \<^verbatim>\<open>Map\<close> from socket id to the user object and
  \<^verbatim>\<open>adminSockets\<close> a \<^verbatim>\<open>Set\<close> of socket ids; both iterate in insertion order,
  so they are lists here: an association list with one pair per key, and a list without
  repetition.
\<close>

type_synonym sid = string

definition Map_get :: "(sid \<times> obj) list \<Rightarrow> sid \<Rightarrow> obj option" where
  "Map_get m k = map_of m k"

definition Map_set :: "(sid \<times> obj) list \<Rightarrow> sid \<Rightarrow> obj \<Rightarrow> (sid \<times> obj) list" where
  "Map_set m k v = AList.update k v m"

definition Map_delete :: "(sid \<times> obj) list \<Rightarrow> sid \<Rightarrow> (sid \<times> obj) list" where
  "Map_delete m k = AList.delete k m"

definition Set_add :: "sid list \<Rightarrow> sid \<Rightarrow> sid list" where
  "Set_add xs x = (if x \<in> set xs then xs else xs @ [x])"

definition Set_delete :: "sid list \<Rightarrow> sid \<Rightarrow> sid list" where
  "Set_delete xs x = removeAll x xs"

text \<open>
  Modelled from the spec: the transport library's connection and room primitives
  (\<^verbatim>\<open>socket.join\<close>, \<^verbatim>\<open>socket.leave\<close>, \<^verbatim>\<open>io.to(..).emit\<close>,
  \<^verbatim>\<open>socket.to(..).emit\<close>, \<^verbatim>\<open>socket.emit\<close>), which are not among the repository's
  files. \<open>sockets\<close> are the connections that are open, \<open>rooms\<close> the pairs of a connection
  and a room it has joined. A connection's private room, the one named by its own id, is
  kept apart from the ticket rooms: a socket id is taken never to spell a ticket room's name.
\<close>

record server =
  activeUsers :: "(sid \<times> obj) list"
  adminSockets :: "sid list"
  sockets :: "sid list"
  rooms :: "(sid \<times> string) list"

definition init :: server where
  "init = \<lparr>activeUsers = [], adminSockets = [], sockets = [], rooms = []\<rparr>"

text \<open>
  Where an emit goes: \<open>To_socket s\<close> is \<^verbatim>\<open>socket.emit\<close> on the connection \<open>s\<close> and
  \<^verbatim>\<open>io.to(s).emit\<close> with a socket id, \<open>To_room r\<close> is \<^verbatim>\<open>io.to(r).emit\<close> with a
  ticket room, \<open>To_others s r\<close> is \<^verbatim>\<open>socket.to(r).emit\<close> on the connection \<open>s\<close>.
\<close>

datatype target = To_socket sid | To_room string | To_others sid string

text \<open>The statements the server sends to storage.\<close>

datatype statement =
  INSERT_ticket_message | SELECT_ticket_message | SELECT_ticket_owner | SELECT_ticket

text \<open>What a handler does to the outside, in order.\<close>

datatype effect = Emit target string obj | Execute statement "jsval list"

fun receives :: "server \<Rightarrow> sid \<Rightarrow> target \<Rightarrow> bool" where
  "receives st c (To_socket s) = (c = s \<and> c \<in> set (sockets st))"
| "receives st c (To_room r) = ((c, r) \<in> set (rooms st))"
| "receives st c (To_others s r) = ((c, r) \<in> set (rooms st) \<and> c \<noteq> s)"

fun delivered :: "server \<Rightarrow> sid \<Rightarrow> string \<Rightarrow> effect \<Rightarrow> bool" where
  "delivered st c ev (Emit t name payload) = (name = ev \<and> receives st c t)"
| "delivered st c ev (Execute q ps) = False"

text \<open>The deliveries of event \<open>ev\<close> that connection \<open>c\<close> gets out of a handler's effects.\<close>

definition received :: "server \<Rightarrow> sid \<Rightarrow> string \<Rightarrow> effect list \<Rightarrow> effect list" where
  "received st c ev effs = filter (delivered st c ev) effs"

section \<open>Helper functions\<close>

definition notifyAdmins :: "server \<Rightarrow> string \<Rightarrow> obj \<Rightarrow> effect list" where
  "notifyAdmins st event data = map (\<lambda>socketId. Emit (To_socket socketId) event data) (adminSockets st)"

section \<open>Socket.IO event handlers\<close>

text \<open>
  A handler takes the server's state, the id of the connection the event came in on, and the
  event's payload, an object; it gives back the state it leaves and its effects.

  \<^verbatim>\<open>io.on('connection', ..)\<close>: the handler logs and installs the listeners below; the
  transport has the connection open from here on.
\<close>

definition connection :: "server \<Rightarrow> sid \<Rightarrow> server" where
  "connection st s = st\<lparr>sockets := sockets st @ [s]\<rparr>"

definition join_system :: "server \<Rightarrow> sid \<Rightarrow> obj \<Rightarrow> server \<times> effect list" where
  "join_system st s data =
     (let userId = js_get data ''userId'';
          username = js_get data ''username'';
          isAdmin = js_get data ''isAdmin'';
          st1 = st\<lparr>activeUsers := Map_set (activeUsers st) s
                  [(''userId'', userId), (''username'', username),
                   (''isAdmin'', js_Boolean isAdmin), (''ticketId'', JNull)]\<rparr>;
          st2 = (if truthy isAdmin then st1\<lparr>adminSockets := Set_add (adminSockets st1) s\<rparr> else st1)
      in (st2, [Emit (To_socket s) ''system_joined''
                  [(''success'', JBool True), (''message'', JStr ''Connected to ticket system'')]]))"

definition join_ticket :: "server \<Rightarrow> sid \<Rightarrow> obj \<Rightarrow> server \<times> effect list" where
  "join_ticket st s data =
     (let ticketId = js_get data ''ticketId'';
          username = js_get data ''username'';
          isAdmin = js_get data ''isAdmin'';
          st1 = st\<lparr>rooms := List.insert (s, roomName ticketId) (rooms st)\<rparr>;
          userInfo = (case Map_get (activeUsers st1) s of None \<Rightarrow> [] | Some user \<Rightarrow> user);
          userInfo1 = js_put userInfo ''ticketId'' ticketId;
          st2 = st1\<lparr>activeUsers := Map_set (activeUsers st1) s userInfo1\<rparr>
      in (st2, [Emit (To_others s (roomName ticketId)) ''user_joined''
                  [(''username'', username), (''isAdmin'', js_Boolean isAdmin),
                   (''message'', JStr (js_String username @ '' joined the chat''))]]))"

definition leave_ticket :: "server \<Rightarrow> sid \<Rightarrow> obj \<Rightarrow> server \<times> effect list" where
  "leave_ticket st s data =
     (let ticketId = js_get data ''ticketId'';
          username = js_get data ''username'';
          st1 = st\<lparr>rooms := removeAll (s, roomName ticketId) (rooms st)\<rparr>
      in (st1, [Emit (To_others s (roomName ticketId)) ''user_left''
                  [(''username'', username),
                   (''message'', JStr (js_String username @ '' left the chat''))]]))"

text \<open>
  \<^verbatim>\<open>disconnect\<close>: the transport has closed the connection and taken it out of its rooms
  when the handler runs.
\<close>

definition disconnect :: "server \<Rightarrow> sid \<Rightarrow> server \<times> effect list" where
  "disconnect st s =
     (let st0 = st\<lparr>sockets := removeAll s (sockets st),
                    rooms := filter (\<lambda>(c, r). c \<noteq> s) (rooms st)\<rparr>
      in case Map_get (activeUsers st0) s of
           None \<Rightarrow> (st0, [])
         | Some user \<Rightarrow>
             (let left = (if truthy (js_get user ''ticketId'')
                          then [Emit (To_others s (roomName (js_get user ''ticketId''))) ''user_left''
                                  [(''username'', js_get user ''username''),
                                   (''message'', JStr (js_String (js_get user ''username'') @ '' left the chat''))]]
                          else []);
                  st1 = (if truthy (js_get user ''isAdmin'')
                         then st0\<lparr>adminSockets := Set_delete (adminSockets st0) s\<rparr> else st0);
                  st2 = st1\<lparr>activeUsers := Map_delete (activeUsers st1) s\<rparr>
              in (st2, left)))"

definition typing :: "server \<Rightarrow> sid \<Rightarrow> obj \<Rightarrow> effect list" where
  "typing st s data =
     [Emit (To_others s (roomName (js_get data ''ticketId''))) ''user_typing''
        [(''username'', js_get data ''username'')]]"

definition stop_typing :: "server \<Rightarrow> sid \<Rightarrow> obj \<Rightarrow> effect list" where
  "stop_typing st s data =
     [Emit (To_others s (roomName (js_get data ''ticketId''))) ''user_stop_typing'' []]"

text \<open>\<open>now\<close> is what \<^verbatim>\<open>new Date().toISOString()\<close> gives while the handler runs.\<close>

definition ticket_created :: "jsval \<Rightarrow> server \<Rightarrow> sid \<Rightarrow> obj \<Rightarrow> effect list" where
  "ticket_created now st s data =
     notifyAdmins st ''new_ticket''
       [(''ticketId'', js_get data ''ticketId''), (''title'', js_get data ''title''),
        (''category'', js_get data ''category''), (''username'', js_get data ''username''),
        (''timestamp'', now)]"

text \<open>\<^verbatim>\<open>GET /health\<close>.\<close>

definition health :: "jsval \<Rightarrow> server \<Rightarrow> obj" where
  "health now st =
     [(''status'', JStr ''ok''), (''activeUsers'', JNum (int (length (activeUsers st)))),
      (''adminCount'', JNum (int (length (adminSockets st)))), (''timestamp'', now)]"

section \<open>Storage\<close>

text \<open>
  The storage collaborator is a parameter of the pipelines: whether the pool hands out a
  connection, and what each statement of the server answers for its bind parameters.
  \<open>None\<close> is a statement that throws. An insert answers the new row's
  \<^verbatim>\<open>insertId\<close>, a select its rows.
  \<^item> \<open>insert_ticket_message\<close>:
    \<^verbatim>\<open>INSERT INTO ticket_messages (ticket_id, sender, account_id, text, image_url) VALUES (?, ?, ?, ?, ?)\<close>
  \<^item> \<open>select_ticket_message\<close>:
    \<^verbatim>\<open>SELECT tm.*, a.login as username FROM ticket_messages tm JOIN account a ON tm.account_id = a.id WHERE tm.id = ?\<close>
  \<^item> \<open>select_ticket_owner\<close>:
    \<^verbatim>\<open>SELECT account_id, phone, sms_requested FROM tickets WHERE id = ?\<close>
  \<^item> \<open>select_ticket\<close>:
    \<^verbatim>\<open>SELECT t.*, a.login as username FROM tickets t JOIN account a ON t.account_id = a.id WHERE t.id = ?\<close>

  A pipeline below runs from its first statement to its last emit against one state of the
  server, the one it is handed: the events that the server may take in while a statement is
  awaited are not interleaved into it.
\<close>

record storage =
  getConnection :: bool
  insert_ticket_message :: "jsval list \<Rightarrow> jsval option"
  select_ticket_message :: "jsval list \<Rightarrow> obj list option"
  select_ticket_owner :: "jsval list \<Rightarrow> obj list option"
  select_ticket :: "jsval list \<Rightarrow> obj list option"

section \<open>Ticket message pipeline\<close>

definition message_error :: "sid \<Rightarrow> effect" where
  "message_error s = Emit (To_socket s) ''message_error'' [(''error'', JStr ''Failed to send message'')]"

text \<open>The bind parameters of the insert.\<close>

definition insert_params :: "obj \<Rightarrow> jsval list" where
  "insert_params data =
     [js_get data ''ticketId'', js_get data ''sender'', js_get data ''userId'',
      js_or (js_get data ''text'') (JStr ''''), js_or (js_get data ''image_url'') JNull]"

text \<open>The payload of \<^verbatim>\<open>new_message\<close>, read off the row \<^verbatim>\<open>messages[0]\<close>.\<close>

definition new_message_payload :: "obj \<Rightarrow> obj" where
  "new_message_payload message =
     [(''id'', js_get message ''id''), (''ticket_id'', js_get message ''ticket_id''),
      (''sender'', js_get message ''sender''), (''username'', js_get message ''username''),
      (''text'', js_get message ''text''), (''image_url'', js_get message ''image_url''),
      (''created_at'', js_get message ''created_at'')]"

text \<open>The payload of \<^verbatim>\<open>new_user_message\<close> and of \<^verbatim>\<open>new_admin_message\<close>.\<close>

definition notification_payload :: "obj \<Rightarrow> jsval \<Rightarrow> obj \<Rightarrow> obj" where
  "notification_payload data messageId message =
     [(''ticketId'', js_get data ''ticketId''), (''username'', js_get data ''username''),
      (''text'', js_get data ''text''), (''messageId'', messageId),
      (''timestamp'', js_get message ''created_at'')]"

text \<open>The owner lookup of the admin branch and of the REST endpoint.\<close>

definition is_owner_user :: "jsval \<Rightarrow> sid \<times> obj \<Rightarrow> bool" where
  "is_owner_user ownerId = (\<lambda>(socketId, user).
     strict_eq (js_Number (js_get user ''userId'')) (js_Number ownerId) \<and> \<not> truthy (js_get user ''isAdmin''))"

definition ownerSockets :: "server \<Rightarrow> jsval \<Rightarrow> sid list" where
  "ownerSockets st ownerId = map fst (filter (is_owner_user ownerId) (activeUsers st))"

text \<open>
  \<^verbatim>\<open>send_message\<close>. A statement that throws, and the read of a property of
  \<^verbatim>\<open>messages[0]\<close> when no row came back, leave the \<^verbatim>\<open>try\<close> block for the
  \<^verbatim>\<open>catch\<close>, which emits \<^verbatim>\<open>message_error\<close> on the sender's connection.
\<close>

definition send_message :: "storage \<Rightarrow> server \<Rightarrow> sid \<Rightarrow> obj \<Rightarrow> effect list" where
  "send_message db st s data =
     (let ticketId = js_get data ''ticketId'';
          sender = js_get data ''sender''
      in if \<not> getConnection db then [message_error s]
         else Execute INSERT_ticket_message (insert_params data) #
           (case insert_ticket_message db (insert_params data) of
              None \<Rightarrow> [message_error s]
            | Some messageId \<Rightarrow> Execute SELECT_ticket_message [messageId] #
                (case select_ticket_message db [messageId] of
                   None \<Rightarrow> [message_error s]
                 | Some [] \<Rightarrow> [message_error s]
                 | Some (message # rest) \<Rightarrow>
                     Emit (To_room (roomName ticketId)) ''new_message'' (new_message_payload message) #
                     (if strict_eq sender (JStr ''user'')
                      then notifyAdmins st ''new_user_message'' (notification_payload data messageId message)
                      else []) @
                     (if strict_eq sender (JStr ''admin'')
                      then Execute SELECT_ticket_owner [ticketId] #
                        (case select_ticket_owner db [ticketId] of
                           None \<Rightarrow> [message_error s]
                         | Some [] \<Rightarrow> []
                         | Some (ticket # others) \<Rightarrow>
                             map (\<lambda>socketId. Emit (To_socket socketId) ''new_admin_message''
                                    (notification_payload data messageId message))
                               (ownerSockets st (js_get ticket ''account_id'')))
                      else []))))"

section \<open>Status update pipeline\<close>

text \<open>The owner lookup of the real-time path.\<close>

definition is_owner_outside :: "jsval \<Rightarrow> jsval \<Rightarrow> sid \<times> obj \<Rightarrow> bool" where
  "is_owner_outside ownerId ticketId = (\<lambda>(socketId, user).
     strict_eq (js_get user ''userId'') ownerId \<and> \<not> strict_eq (js_get user ''ticketId'') ticketId)"

definition status_payload :: "obj \<Rightarrow> jsval \<Rightarrow> obj" where
  "status_payload data now =
     [(''ticketId'', js_get data ''ticketId''), (''oldStatus'', js_get data ''oldStatus''),
      (''newStatus'', js_get data ''newStatus''), (''updatedBy'', js_get data ''updatedBy''),
      (''timestamp'', now)]"

definition owner_status_payload :: "obj \<Rightarrow> obj \<Rightarrow> jsval \<Rightarrow> obj" where
  "owner_status_payload data ticket now =
     [(''ticketId'', js_get data ''ticketId''), (''title'', js_get ticket ''title''),
      (''oldStatus'', js_get data ''oldStatus''), (''newStatus'', js_get data ''newStatus''),
      (''updatedBy'', js_get data ''updatedBy''), (''timestamp'', now)]"

text \<open>\<^verbatim>\<open>status_updated\<close>; its \<^verbatim>\<open>catch\<close> only logs.\<close>

definition status_updated :: "storage \<Rightarrow> jsval \<Rightarrow> server \<Rightarrow> sid \<Rightarrow> obj \<Rightarrow> effect list" where
  "status_updated db now st s data =
     (let ticketId = js_get data ''ticketId''
      in if \<not> getConnection db then []
         else Execute SELECT_ticket [ticketId] #
           (case select_ticket db [ticketId] of
              None \<Rightarrow> []
            | Some [] \<Rightarrow> []
            | Some (ticket # others) \<Rightarrow>
                Emit (To_room (roomName ticketId)) ''ticket_status_changed'' (status_payload data now) #
                map (\<lambda>socketId. Emit (To_socket socketId) ''ticket_status_changed''
                       (owner_status_payload data ticket now))
                  (map fst (filter (is_owner_outside (js_get ticket ''account_id'') ticketId)
                     (activeUsers st)))))"

section \<open>REST endpoints\<close>

text \<open>A response: the status code and the JSON body.\<close>

type_synonym response = "nat \<times> obj"

text \<open>\<^verbatim>\<open>POST /api/broadcast-status-update\<close>, on the request's body.\<close>

definition broadcast_status_update :: "storage \<Rightarrow> jsval \<Rightarrow> server \<Rightarrow> obj \<Rightarrow> response \<times> effect list" where
  "broadcast_status_update db now st body =
     (let ticketId = js_get body ''ticketId'';
          newStatus = js_get body ''newStatus'';
          failed = (500, [(''success'', JBool False), (''error'', JStr ''Failed to broadcast status update'')])
      in if \<not> truthy ticketId \<or> \<not> truthy newStatus
         then ((400, [(''success'', JBool False), (''error'', JStr ''Missing required fields'')]), [])
         else if \<not> getConnection db then (failed, [])
         else (case select_ticket db [ticketId] of
                 None \<Rightarrow> (failed, [Execute SELECT_ticket [ticketId]])
               | Some [] \<Rightarrow>
                   ((404, [(''success'', JBool False), (''error'', JStr ''Ticket not found'')]),
                    [Execute SELECT_ticket [ticketId]])
               | Some (ticket # others) \<Rightarrow>
                   ((200, [(''success'', JBool True), (''message'', JStr ''Status update broadcasted''),
                           (''notified'', JNum (int (length (ownerSockets st (js_get ticket ''account_id'')))))]),
                    Execute SELECT_ticket [ticketId] #
                    map (\<lambda>socketId. Emit (To_socket socketId) ''ticket_status_changed''
                           (owner_status_payload body ticket now))
                      (ownerSockets st (js_get ticket ''account_id'')))))"

section \<open>Runs of the server\<close>

text \<open>
  The events that change the server's state. The transport hands a connection's events to
  its listeners only while the connection is open, and opens a connection under an id that
  no open connection has.
\<close>

datatype event =
  Connection sid | Join_system sid obj | Join_ticket sid obj | Leave_ticket sid obj
  | Disconnect sid

fun deliver :: "server \<Rightarrow> event \<Rightarrow> server" where
  "deliver st (Connection s) = (if s \<in> set (sockets st) then st else connection st s)"
| "deliver st (Join_system s d) = (if s \<in> set (sockets st) then fst (join_system st s d) else st)"
| "deliver st (Join_ticket s d) = (if s \<in> set (sockets st) then fst (join_ticket st s d) else st)"
| "deliver st (Leave_ticket s d) = (if s \<in> set (sockets st) then fst (leave_ticket st s d) else st)"
| "deliver st (Disconnect s) = (if s \<in> set (sockets st) then fst (disconnect st s) else st)"

fun run :: "server \<Rightarrow> event list \<Rightarrow> server" where
  "run st [] = st"
| "run st (e # es) = run (deliver st e) es"

text \<open>
  What every run keeps of the registry: one entry per key, and entries of open
  connections only.
\<close>

definition registry_ok :: "server \<Rightarrow> bool" where
  "registry_ok st =
     (distinct (map fst (activeUsers st)) \<and> fst ` set (activeUsers st) \<subseteq> set (sockets st))"

text \<open>
  What a run keeps of a connection that never sent \<^verbatim>\<open>join_system\<close>: it is no admin
  socket, and its entry, if it has one, holds \<^verbatim>\<open>ticketId\<close> and nothing else.
\<close>

definition ticket_only :: "server \<Rightarrow> sid \<Rightarrow> bool" where
  "ticket_only st s =
     (s \<notin> set (adminSockets st) \<and>
      (case Map_get (activeUsers st) s of None \<Rightarrow> True | Some user \<Rightarrow> map fst user = [''ticketId'']))"

text \<open>
  The half of the admin invariant that every run keeps: a connection registered as admin is
  an admin socket.
\<close>

definition admins_listed :: "server \<Rightarrow> bool" where
  "admins_listed st =
     list_all (\<lambda>(socketId, user). \<not> truthy (js_get user ''isAdmin'') \<or> socketId \<in> set (adminSockets st))
       (activeUsers st)"

text \<open>
  A plain account id is a whole number from 0 to \<open>2 ^ 53\<close>, held as a number or as the string
  of its decimal digits without leading zeros. On plain ids \<open>js_Number\<close> is JavaScript's
  \<^verbatim>\<open>Number\<close>: every such number is a double, and the string reads back as that number.
  \<open>id_of\<close> gives the id a value holds, if it is a plain one.
\<close>

fun id_of :: "jsval \<Rightarrow> nat option" where
  "id_of (JNum i) = (if 0 \<le> i \<and> i \<le> 2 ^ 53 then Some (nat i) else None)"
| "id_of (JStr s) =
     (case digits_val 0 s of
        None \<Rightarrow> None
      | Some n \<Rightarrow> if s = dec_of_nat n \<and> int n \<le> 2 ^ 53 then Some n else None)"
| "id_of v = None"


section \<open>Concrete inputs\<close>

text \<open>
  A storage that answers from tables: the tickets it holds, the id it gives the next
  message, and the message rows as they read once that message is in.
\<close>

definition table_storage :: "obj list \<Rightarrow> jsval \<Rightarrow> obj list \<Rightarrow> storage" where
  "table_storage tickets insertId messages =
     \<lparr>getConnection = True,
      insert_ticket_message = (\<lambda>ps. Some insertId),
      select_ticket_message = (\<lambda>ps. Some (filter (\<lambda>m. [js_get m ''id''] = ps) messages)),
      select_ticket_owner = (\<lambda>ps. Some (filter (\<lambda>t. [js_get t ''id''] = ps) tickets)),
      select_ticket = (\<lambda>ps. Some (filter (\<lambda>t. [js_get t ''id''] = ps) tickets))\<rparr>"

text \<open>Ticket 7 of account 42, and message 100 on it as the re-read returns it.\<close>

definition ticket7 :: obj where
  "ticket7 = [(''id'', JNum 7), (''account_id'', JNum 42), (''title'', JStr ''Login fails''),
     (''status'', JStr ''open''), (''phone'', JNull), (''sms_requested'', JNum 0),
     (''username'', JStr ''ann'')]"

definition message100 :: obj where
  "message100 = [(''id'', JNum 100), (''ticket_id'', JNum 7), (''sender'', JStr ''admin''),
     (''account_id'', JNum 1), (''text'', JStr ''Hello''), (''image_url'', JNull),
     (''created_at'', JStr ''2024-05-01 10:00:00''), (''username'', JStr ''root'')]"

text \<open>The \<^verbatim>\<open>send_message\<close> payload of an admin writing on ticket 7.\<close>

definition admin_hello :: obj where
  "admin_hello = [(''ticketId'', JNum 7), (''userId'', JNum 1), (''username'', JStr ''root''),
     (''text'', JStr ''Hello''), (''sender'', JStr ''admin'')]"

text \<open>
  A run: account 42 opens connection \<open>u1\<close> and joins the system with its id as a string,
  outside every room; admin \<open>a1\<close> joins the system and ticket 7.
\<close>

definition owner_and_admin :: "event list" where
  "owner_and_admin =
     [Connection ''u1'',
      Join_system ''u1'' [(''userId'', JStr ''42''), (''username'', JStr ''ann''), (''isAdmin'', JBool False)],
      Connection ''a1'',
      Join_system ''a1'' [(''userId'', JNum 1), (''username'', JStr ''root''), (''isAdmin'', JBool True)],
      Join_ticket ''a1'' [(''ticketId'', JNum 7), (''userId'', JNum 1), (''username'', JStr ''root''),
        (''isAdmin'', JBool True)]]"


text \<open>A storage whose statements all throw.\<close>

definition broken_storage :: storage where
  "broken_storage =
     \<lparr>getConnection = True,
      insert_ticket_message = (\<lambda>ps. None),
      select_ticket_message = (\<lambda>ps. None),
      select_ticket_owner = (\<lambda>ps. None),
      select_ticket = (\<lambda>ps. None)\<rparr>"




text \<open>Bodies of \<^verbatim>\<open>POST /api/broadcast-status-update\<close>, and a clock reading.\<close>

definition close7 :: obj where
  "close7 = [(''ticketId'', JNum 7), (''oldStatus'', JStr ''open''), (''newStatus'', JStr ''closed''),
     (''updatedBy'', JStr ''root'')]"



definition noon :: jsval where
  "noon = JStr ''2024-05-01T12:00:00.000Z''"

text \<open>
  Runs of one connection of account 42 beside the admin: it joins the room of ticket 7 and
  leaves it again; it joins the room of ticket 7 and then that of ticket 8.
\<close>

definition joined_and_left :: "event list" where
  "joined_and_left =
     [Connection ''a1'',
      Join_system ''a1'' [(''userId'', JNum 1), (''username'', JStr ''root''), (''isAdmin'', JBool True)],
      Connection ''u1'',
      Join_system ''u1'' [(''userId'', JNum 42), (''username'', JStr ''ann''), (''isAdmin'', JBool False)],
      Join_ticket ''u1'' [(''ticketId'', JNum 7), (''userId'', JNum 42), (''username'', JStr ''ann'')],
      Leave_ticket ''u1'' [(''ticketId'', JNum 7), (''username'', JStr ''ann'')]]"

definition joined_two_rooms :: "event list" where
  "joined_two_rooms =
     [Connection ''a1'',
      Join_system ''a1'' [(''userId'', JNum 1), (''username'', JStr ''root''), (''isAdmin'', JBool True)],
      Connection ''u1'',
      Join_system ''u1'' [(''userId'', JNum 42), (''username'', JStr ''ann''), (''isAdmin'', JBool False)],
      Join_ticket ''u1'' [(''ticketId'', JNum 7), (''userId'', JNum 42), (''username'', JStr ''ann'')],
      Join_ticket ''u1'' [(''ticketId'', JNum 8), (''userId'', JNum 42), (''username'', JStr ''ann'')]]"

text \<open>A run in which a connection joins the system as admin and then again as user.\<close>

definition rejoined_as_user :: "event list" where
  "rejoined_as_user =
     [Connection ''a1'',
      Join_system ''a1'' [(''userId'', JNum 1), (''username'', JStr ''root''), (''isAdmin'', JBool True)],
      Join_system ''a1'' [(''userId'', JNum 1), (''username'', JStr ''root''), (''isAdmin'', JBool False)]]"


section \<open>The registry along a run\<close>

lemma registry_ok_init: "registry_ok init"
  by (simp add: registry_ok_def init_def)

lemma registry_ok_connection: "registry_ok st \<Longrightarrow> registry_ok (connection st s)"
  by (auto simp: registry_ok_def connection_def)

lemma registry_ok_join_system:
  "registry_ok st \<Longrightarrow> s \<in> set (sockets st) \<Longrightarrow> registry_ok (fst (join_system st s d))"
  by (auto simp: registry_ok_def join_system_def Let_def Map_set_def distinct_update dom_update)

lemma registry_ok_join_ticket:
  "registry_ok st \<Longrightarrow> s \<in> set (sockets st) \<Longrightarrow> registry_ok (fst (join_ticket st s d))"
  by (auto simp: registry_ok_def join_ticket_def Let_def Map_set_def distinct_update dom_update)

lemma registry_ok_leave_ticket: "registry_ok st \<Longrightarrow> registry_ok (fst (leave_ticket st s d))"
  by (auto simp: registry_ok_def leave_ticket_def Let_def)

lemma registry_ok_disconnect:
  assumes "registry_ok st"
  shows "registry_ok (fst (disconnect st s))"
proof (cases "map_of (activeUsers st) s")
  case None
  then have "s \<notin> fst ` set (activeUsers st)"
    by (simp add: map_of_eq_None_iff)
  with assms None show ?thesis
    by (auto simp: registry_ok_def disconnect_def Let_def Map_get_def)
next
  case (Some user)
  have "fst ` set (AList.delete s (activeUsers st)) \<subseteq> set (sockets st) - {s}"
    using assms dom_delete_subset [of s "activeUsers st"] delete_notin_dom [of s "activeUsers st"]
    by (auto simp: registry_ok_def)
  with assms Some show ?thesis
    by (auto simp: registry_ok_def disconnect_def Let_def Map_get_def Map_delete_def distinct_delete)
qed

lemma registry_ok_deliver: "registry_ok st \<Longrightarrow> registry_ok (deliver st e)"
  by (cases e)
    (simp_all add: registry_ok_connection registry_ok_join_system registry_ok_join_ticket
      registry_ok_leave_ticket registry_ok_disconnect)

lemma registry_ok_run: "registry_ok st \<Longrightarrow> registry_ok (run st es)"
  by (induction es arbitrary: st) (simp_all add: registry_ok_deliver)

lemma unregistered_when_closed:
  assumes "registry_ok st" and "c \<notin> set (sockets st)"
  shows "map_of (activeUsers st) c = None"
proof -
  from assms have "c \<notin> fst ` set (activeUsers st)"
    by (auto simp: registry_ok_def)
  then show ?thesis
    by (simp add: map_of_eq_None_iff)
qed

section \<open>Counting deliveries\<close>




section \<open>The message pipeline's effects\<close>


lemma js_get_js_put: "js_get (js_put ob k v) k' = (if k' = k then v else js_get ob k')"
  by (simp add: js_get_def js_put_def update_conv')

lemma insert_params_js_put:
  "k \<notin> set [''ticketId'', ''sender'', ''userId'', ''text'', ''image_url''] \<Longrightarrow>
     insert_params (js_put data k v) = insert_params data"
  by (auto simp: insert_params_def js_get_js_put)

text \<open>When \<^verbatim>\<open>new_message\<close> is emitted, and with what.\<close>

lemma new_message_iff:
  "Emit t ''new_message'' p \<in> set (send_message db st s data) \<longleftrightarrow>
     getConnection db \<and>
     (\<exists>messageId message rest.
        insert_ticket_message db (insert_params data) = Some messageId \<and>
        select_ticket_message db [messageId] = Some (message # rest) \<and>
        t = To_room (roomName (js_get data ''ticketId'')) \<and>
        p = new_message_payload message)"
  by (auto simp: send_message_def Let_def message_error_def notifyAdmins_def
      split: option.splits list.splits)

section \<open>The REST endpoint's effects\<close>





section \<open>Connections that never joined the system\<close>

lemma ticket_only_init: "ticket_only init s"
  by (simp add: ticket_only_def init_def Map_get_def)

lemma ticket_only_join_ticket:
  assumes "ticket_only st s"
  shows "Map_get (activeUsers (fst (join_ticket st s data))) s = Some [(''ticketId'', js_get data ''ticketId'')]"
proof (cases "map_of (activeUsers st) s")
  case None
  then show ?thesis
    by (simp add: join_ticket_def Let_def Map_get_def Map_set_def js_put_def update_conv')
next
  case (Some user)
  with assms have "map fst user = [''ticketId'']"
    by (simp add: ticket_only_def Map_get_def)
  then obtain v where "user = [(''ticketId'', v)]"
    by (cases user) auto
  with Some show ?thesis
    by (simp add: join_ticket_def Let_def Map_get_def Map_set_def js_put_def update_conv')
qed

lemma ticket_only_deliver:
  assumes "ticket_only st s" and "\<forall>d. e \<noteq> Join_system s d"
  shows "ticket_only (deliver st e) s"
proof (cases e)
  case (Connection c)
  with assms show ?thesis
    by (simp add: ticket_only_def connection_def)
next
  case (Join_system c d)
  with assms have "c \<noteq> s" by auto
  with assms Join_system show ?thesis
    by (simp add: ticket_only_def join_system_def Let_def Map_get_def Map_set_def Set_add_def
        update_conv')
next
  case (Join_ticket c d)
  show ?thesis
  proof (cases "c = s")
    case True
    have "adminSockets (fst (join_ticket st s d)) = adminSockets st"
      by (simp add: join_ticket_def Let_def)
    with ticket_only_join_ticket [OF assms(1), of d] assms(1) Join_ticket True show ?thesis
      by (simp add: ticket_only_def)
  next
    case False
    with assms Join_ticket show ?thesis
      by (simp add: ticket_only_def join_ticket_def Let_def Map_get_def Map_set_def update_conv')
  qed
next
  case (Leave_ticket c d)
  with assms show ?thesis
    by (simp add: ticket_only_def leave_ticket_def Let_def)
next
  case (Disconnect c)
  with assms show ?thesis
    by (auto simp: ticket_only_def disconnect_def Let_def Map_get_def Map_delete_def Set_delete_def
        delete_conv' split: option.splits)
qed

lemma ticket_only_run:
  "ticket_only st s \<Longrightarrow> \<forall>d. Join_system s d \<notin> set es \<Longrightarrow> ticket_only (run st es) s"
proof (induction es arbitrary: st)
  case Nil
  then show ?case by simp
next
  case (Cons e es)
  from Cons.prems have "\<forall>d. e \<noteq> Join_system s d" by auto
  with Cons.prems have "ticket_only (deliver st e) s"
    by (simp add: ticket_only_deliver)
  with Cons show ?case by simp
qed

section \<open>Registered admins are admin sockets\<close>

lemma admins_listed_iff:
  "distinct (map fst (activeUsers st)) \<Longrightarrow>
     admins_listed st \<longleftrightarrow>
       (\<forall>s user. Map_get (activeUsers st) s = Some user \<and> truthy (js_get user ''isAdmin'')
          \<longrightarrow> s \<in> set (adminSockets st))"
  by (auto simp: admins_listed_def list_all_iff Map_get_def dest: map_of_SomeD)

lemma admins_listed_init: "admins_listed init"
  by (simp add: admins_listed_def init_def)

lemma isAdmin_js_put_ticketId: "js_get (js_put user ''ticketId'' v) ''isAdmin'' = js_get user ''isAdmin''"
  by (simp add: js_get_js_put)

lemma admins_listed_deliver:
  assumes ok: "registry_ok st" and listed: "admins_listed st"
  shows "admins_listed (deliver st e)"
proof -
  have d: "distinct (map fst (activeUsers st))"
    using ok by (simp add: registry_ok_def)
  have d': "distinct (map fst (activeUsers (deliver st e)))"
    using registry_ok_deliver [OF ok, of e] by (simp add: registry_ok_def)
  note old = listed [unfolded admins_listed_iff [OF d], rule_format]
  show ?thesis
    unfolding admins_listed_iff [OF d']
  proof (intro allI impI)
    fix s user
    assume a: "Map_get (activeUsers (deliver st e)) s = Some user \<and> truthy (js_get user ''isAdmin'')"
    show "s \<in> set (adminSockets (deliver st e))"
    proof (cases e)
      case (Connection c)
      with a old [of s user] show ?thesis
        by (simp add: connection_def split: if_splits)
    next
      case (Join_system c data)
      with a old [of s user] show ?thesis
        by (auto simp: join_system_def Let_def Map_get_def Map_set_def Set_add_def update_conv'
            js_Boolean_def js_get_def split: if_splits)
    next
      case (Join_ticket c data)
      show ?thesis
      proof (cases "c \<in> set (sockets st) \<and> c = s")
        case True
        with a Join_ticket obtain u where
          u: "user = js_put u ''ticketId'' (js_get data ''ticketId'')" and
          old_u: "u = [] \<or> Map_get (activeUsers st) s = Some u"
          by (auto simp: join_ticket_def Let_def Map_get_def Map_set_def update_conv'
              split: option.splits)
        from a u have t: "truthy (js_get u ''isAdmin'')"
          by (simp add: isAdmin_js_put_ticketId)
        then have "u \<noteq> []"
          by (auto simp: js_get_def)
        with old_u t old [of s u] have "s \<in> set (adminSockets st)"
          by simp
        with Join_ticket True show ?thesis
          by (simp add: join_ticket_def Let_def)
      next
        case False
        with a Join_ticket old [of s user] show ?thesis
          by (auto simp: join_ticket_def Let_def Map_get_def Map_set_def update_conv'
              split: if_splits)
      qed
    next
      case (Leave_ticket c data)
      with a old [of s user] show ?thesis
        by (simp add: leave_ticket_def Let_def split: if_splits)
    next
      case (Disconnect c)
      with a old [of s user] show ?thesis
        by (auto simp: disconnect_def Let_def Map_get_def Map_delete_def Set_delete_def
            delete_conv' split: if_splits option.splits)
    qed
  qed
qed

lemma admins_listed_run:
  "registry_ok st \<Longrightarrow> admins_listed st \<Longrightarrow> admins_listed (run st es)"
  by (induction es arbitrary: st) (simp_all add: admins_listed_deliver registry_ok_deliver)

text \<open>In every state a run reaches, a connection registered as admin is in \<^verbatim>\<open>adminSockets\<close>.\<close>

lemma registered_admin_is_admin_socket:
  assumes "Map_get (activeUsers (run init evs)) s = Some user" and "truthy (js_get user ''isAdmin'')"
  shows "s \<in> set (adminSockets (run init evs))"
proof -
  have ok: "registry_ok (run init evs)"
    by (simp add: registry_ok_run registry_ok_init)
  then have d: "distinct (map fst (activeUsers (run init evs)))"
    by (simp add: registry_ok_def)
  have "admins_listed (run init evs)"
    by (simp add: admins_listed_run registry_ok_init admins_listed_init)
  with assms show ?thesis
    unfolding admins_listed_iff [OF d] by blast
qed

section \<open>Plain ids\<close>

lemma digit_val_digit_char: "d < 10 \<Longrightarrow> digit_val (digit_char d) = Some d"
proof -
  assume "d < 10"
  then have "d = 0 \<or> d = 1 \<or> d = 2 \<or> d = 3 \<or> d = 4 \<or> d = 5 \<or> d = 6 \<or> d = 7 \<or> d = 8 \<or> d = 9"
    by presburger
  then show ?thesis
    by (elim disjE) (simp_all add: digit_val_def digit_char_def)
qed

lemma digits_val_append:
  "digits_val acc (xs @ ys) =
     (case digits_val acc xs of None \<Rightarrow> None | Some a \<Rightarrow> digits_val a ys)"
  by (induction xs arbitrary: acc) (simp_all split: option.splits)

text \<open>Reading the digits of a number gives the number back.\<close>

lemma digits_val_dec_of_nat: "digits_val 0 (dec_of_nat n) = Some n"
proof (induction n rule: dec_of_nat.induct)
  case (1 n)
  show ?case
  proof (cases "n < 10")
    case True
    then show ?thesis
      by (simp add: dec_of_nat.simps [of n] digit_val_digit_char)
  next
    case False
    with "1" have "digits_val 0 (dec_of_nat (n div 10)) = Some (n div 10)"
      by simp
    with False show ?thesis
      by (simp add: dec_of_nat.simps [of n] digits_val_append digit_val_digit_char)
  qed
qed





lemma id_of_JStr_dec: "int n \<le> 2 ^ 53 \<Longrightarrow> id_of (JStr (dec_of_nat n)) = Some n"
  by (simp add: digits_val_dec_of_nat)





section \<open>Connections without an entry\<close>

lemma run_append: "run st (xs @ ys) = run (run st xs) ys"
  by (induction xs arbitrary: st) simp_all

lemma unregistered_deliver:
  assumes "map_of (activeUsers st) s = None"
    and "\<forall>d. e \<noteq> Join_system s d \<and> e \<noteq> Join_ticket s d"
  shows "map_of (activeUsers (deliver st e)) s = None"
proof (cases e)
  case (Connection c)
  with assms show ?thesis
    by (simp add: connection_def)
next
  case (Join_system c d)
  with assms have "c \<noteq> s" by auto
  with assms Join_system show ?thesis
    by (simp add: join_system_def Let_def Map_set_def update_conv')
next
  case (Join_ticket c d)
  with assms have "c \<noteq> s" by auto
  with assms Join_ticket show ?thesis
    by (simp add: join_ticket_def Let_def Map_set_def update_conv')
next
  case (Leave_ticket c d)
  with assms show ?thesis
    by (simp add: leave_ticket_def Let_def)
next
  case (Disconnect c)
  with assms show ?thesis
    by (simp add: disconnect_def Let_def Map_get_def Map_delete_def delete_conv'
        split: option.splits)
qed

lemma unregistered_run:
  "map_of (activeUsers st) s = None \<Longrightarrow>
     \<forall>d. Join_system s d \<notin> set es \<and> Join_ticket s d \<notin> set es \<Longrightarrow>
     map_of (activeUsers (run st es)) s = None"
proof (induction es arbitrary: st)
  case Nil
  then show ?case by simp
next
  case (Cons e es)
  from Cons.prems have "\<forall>d. e \<noteq> Join_system s d \<and> e \<noteq> Join_ticket s d" by auto
  with Cons.prems have "map_of (activeUsers (deliver st e)) s = None"
    by (simp add: unregistered_deliver)
  with Cons show ?case by simp
qed

section \<open>Claims\<close>

text \<open>
  C1, at the failing run: connection \<open>a1\<close> joins the system as admin and then again with
  \<^verbatim>\<open>isAdmin: false\<close>. Its entry now says it is no admin, yet it is still in
  \<^verbatim>\<open>adminSockets\<close> and \<^verbatim>\<open>notifyAdmins\<close> still addresses it. When it disconnects,
  the handler reads \<^verbatim>\<open>isAdmin: false\<close>, skips the removal, and the id stays in
  \<^verbatim>\<open>adminSockets\<close> with no entry in the registry; \<^verbatim>\<open>GET /health\<close> then counts one
  admin among zero active users. (The other half of the equivalence holds along every run:
  \<open>registered_admin_is_admin_socket\<close>.)
\<close>

theorem adminSockets_keeps_rejoined_user:
  "''a1'' \<in> set (adminSockets (run init rejoined_as_user))
   \<and> Map_get (activeUsers (run init rejoined_as_user)) ''a1'' =
       Some [(''userId'', JNum 1), (''username'', JStr ''root''), (''isAdmin'', JBool False),
             (''ticketId'', JNull)]
   \<and> notifyAdmins (run init rejoined_as_user) ''new_ticket'' [(''ticketId'', JNum 9)] =
       [Emit (To_socket ''a1'') ''new_ticket'' [(''ticketId'', JNum 9)]]
   \<and> ''a1'' \<in> set (adminSockets (run init (rejoined_as_user @ [Disconnect ''a1''])))
   \<and> Map_get (activeUsers (run init (rejoined_as_user @ [Disconnect ''a1'']))) ''a1'' = None
   \<and> js_get (health noon (run init (rejoined_as_user @ [Disconnect ''a1'']))) ''adminCount'' = JNum 1
   \<and> js_get (health noon (run init (rejoined_as_user @ [Disconnect ''a1'']))) ''activeUsers'' = JNum 0"
  by code_simp

text \<open>
  C2, at the failing input: connection \<open>u1\<close> is registered with \<^verbatim>\<open>userId: '42'\<close>, a
  string, and ticket 7 belongs to account 42, a number. The owner filter of
  \<^verbatim>\<open>status_updated\<close> compares with \<^verbatim>\<open>===\<close> and no \<^verbatim>\<open>Number\<close>, so it finds
  no owner connection and \<open>u1\<close> gets nothing. The lookup that
  \<^verbatim>\<open>POST /api/broadcast-status-update\<close> and the admin branch of
  \<^verbatim>\<open>send_message\<close> share does normalize: it selects \<open>u1\<close> in the same state, and
  an admin's message reaches \<open>u1\<close> as \<^verbatim>\<open>new_admin_message\<close>.
\<close>

theorem status_updated_compares_without_Number:
  "Map_get (activeUsers (run init owner_and_admin)) ''u1'' =
     Some [(''userId'', JStr ''42''), (''username'', JStr ''ann''), (''isAdmin'', JBool False),
           (''ticketId'', JNull)]
   \<and> js_get ticket7 ''account_id'' = JNum 42
   \<and> status_updated (table_storage [ticket7] (JNum 100) [message100]) noon
        (run init owner_and_admin) ''a1'' close7 =
       [Execute SELECT_ticket [JNum 7],
        Emit (To_room ''ticket_7'') ''ticket_status_changed''
          [(''ticketId'', JNum 7), (''oldStatus'', JStr ''open''), (''newStatus'', JStr ''closed''),
           (''updatedBy'', JStr ''root''), (''timestamp'', noon)]]
   \<and> received (run init owner_and_admin) ''u1'' ''ticket_status_changed''
        (status_updated (table_storage [ticket7] (JNum 100) [message100]) noon
           (run init owner_and_admin) ''a1'' close7) = []
   \<and> ownerSockets (run init owner_and_admin) (js_get ticket7 ''account_id'') = [''u1'']
   \<and> length (received (run init owner_and_admin) ''u1'' ''new_admin_message''
        (send_message (table_storage [ticket7] (JNum 100) [message100])
           (run init owner_and_admin) ''a1'' admin_hello)) = 1"
  by code_simp

text \<open>
  C3, at the failing inputs, for a status change of ticket 7, owned by account 42, whose
  connection \<open>u1\<close> is registered with the number 42. In the first run \<open>u1\<close> joined the room
  of ticket 7 and left it: it is out of the room, its entry still says
  \<^verbatim>\<open>ticketId: 7\<close>, the owner filter drops it, and it gets the event zero times. In the
  second run \<open>u1\<close> joined the room of ticket 7 and then that of ticket 8: it is still in
  room 7, its entry says \<^verbatim>\<open>ticketId: 8\<close>, so it gets the room broadcast and the owner
  delivery, two events.
\<close>

theorem status_updated_owner_deliveries:
  "(''u1'', ''ticket_7'') \<notin> set (rooms (run init joined_and_left))
   \<and> length (received (run init joined_and_left) ''u1'' ''ticket_status_changed''
        (status_updated (table_storage [ticket7] (JNum 100) [message100]) noon
           (run init joined_and_left) ''a1'' close7)) = 0
   \<and> (''u1'', ''ticket_7'') \<in> set (rooms (run init joined_two_rooms))
   \<and> length (received (run init joined_two_rooms) ''u1'' ''ticket_status_changed''
        (status_updated (table_storage [ticket7] (JNum 100) [message100]) noon
           (run init joined_two_rooms) ''a1'' close7)) = 2"
  by code_simp

text \<open>
  C4. Every \<^verbatim>\<open>new_message\<close> that \<^verbatim>\<open>send_message\<close> emits follows an insert that
  storage accepted and a re-read that returned a row, and each of its seven fields is that
  row's column of the same name: the id and \<^verbatim>\<open>created_at\<close> are the stored ones and the
  username is the one the select joined in. The payload reads nothing of the event: setting
  any property of the event other than the five bind parameters of the insert (the client's
  username, a client's timestamp) leaves the very same emit in place.
\<close>

theorem new_message_from_reread_row:
  assumes "Emit t ''new_message'' p \<in> set (send_message db st s data)"
  shows "\<exists>messageId message rest.
           insert_ticket_message db (insert_params data) = Some messageId \<and>
           select_ticket_message db [messageId] = Some (message # rest) \<and>
           p = [(''id'', js_get message ''id''), (''ticket_id'', js_get message ''ticket_id''),
                (''sender'', js_get message ''sender''), (''username'', js_get message ''username''),
                (''text'', js_get message ''text''), (''image_url'', js_get message ''image_url''),
                (''created_at'', js_get message ''created_at'')] \<and>
           (\<forall>k v. k \<notin> set [''ticketId'', ''sender'', ''userId'', ''text'', ''image_url''] \<longrightarrow>
              Emit t ''new_message'' p \<in> set (send_message db st s (js_put data k v)))"
proof -
  from assms obtain messageId message rest where
    c: "getConnection db" and
    i: "insert_ticket_message db (insert_params data) = Some messageId" and
    r: "select_ticket_message db [messageId] = Some (message # rest)" and
    t: "t = To_room (roomName (js_get data ''ticketId''))" and
    p: "p = new_message_payload message"
    unfolding new_message_iff by blast
  have "Emit t ''new_message'' p \<in> set (send_message db st s (js_put data k v))"
    if k: "k \<notin> set [''ticketId'', ''sender'', ''userId'', ''text'', ''image_url'']" for k v
  proof -
    from k have "js_get (js_put data k v) ''ticketId'' = js_get data ''ticketId''"
      by (auto simp: js_get_js_put)
    with c i r t p insert_params_js_put [OF k] show ?thesis
      unfolding new_message_iff by auto
  qed
  with i r p show ?thesis
    unfolding new_message_payload_def by blast
qed

theorem new_message_from_reread_row_witness:
  "Emit (To_room ''ticket_7'') ''new_message''
     [(''id'', JNum 100), (''ticket_id'', JNum 7), (''sender'', JStr ''admin''),
      (''username'', JStr ''root''), (''text'', JStr ''Hello''), (''image_url'', JNull),
      (''created_at'', JStr ''2024-05-01 10:00:00'')]
     \<in> set (send_message (table_storage [ticket7] (JNum 100) [message100]) (run init owner_and_admin)
          ''a1'' admin_hello)
   \<and> Emit (To_room ''ticket_7'') ''new_message''
     [(''id'', JNum 100), (''ticket_id'', JNum 7), (''sender'', JStr ''admin''),
      (''username'', JStr ''root''), (''text'', JStr ''Hello''), (''image_url'', JNull),
      (''created_at'', JStr ''2024-05-01 10:00:00'')]
     \<in> set (send_message (table_storage [ticket7] (JNum 100) [message100]) (run init owner_and_admin)
          ''a1'' (js_put admin_hello ''username'' (JStr ''mallory'')))"
proof -
  let ?e = "Emit (To_room ''ticket_7'') ''new_message''
     [(''id'', JNum 100), (''ticket_id'', JNum 7), (''sender'', JStr ''admin''),
      (''username'', JStr ''root''), (''text'', JStr ''Hello''), (''image_url'', JNull),
      (''created_at'', JStr ''2024-05-01 10:00:00'')]"
  have h: "?e \<in> set (send_message (table_storage [ticket7] (JNum 100) [message100])
      (run init owner_and_admin) ''a1'' admin_hello)"
    by code_simp
  have k: "''username'' \<notin> set [''ticketId'', ''sender'', ''userId'', ''text'', ''image_url'']"
    by simp
  from new_message_from_reread_row [OF h] k have "?e \<in> set (send_message
      (table_storage [ticket7] (JNum 100) [message100]) (run init owner_and_admin) ''a1''
      (js_put admin_hello ''username'' (JStr ''mallory'')))"
    by blast
  with h show ?thesis by (rule conjI)
qed







text \<open>
  C8. When the pool hands out a connection and the insert throws, \<^verbatim>\<open>send_message\<close>
  returns having done exactly two things: it submitted the insert, and it emitted one
  \<^verbatim>\<open>message_error\<close> on the sender's own connection. So the sender, if still
  connected, gets \<^verbatim>\<open>message_error\<close> once, nobody else gets it, and no connection gets
  any other event (\<^verbatim>\<open>new_message\<close>, \<^verbatim>\<open>new_user_message\<close>,
  \<^verbatim>\<open>new_admin_message\<close> among them). The REST status path, when no connection is to
  be had or the ticket lookup throws, answers 500 with \<^verbatim>\<open>success: false\<close> and nothing
  is delivered.
\<close>

theorem insert_failure_reports_to_sender:
  "(getConnection db \<and> insert_ticket_message db (insert_params data) = None \<longrightarrow>
      send_message db st s data =
        [Execute INSERT_ticket_message (insert_params data),
         Emit (To_socket s) ''message_error'' [(''error'', JStr ''Failed to send message'')]]
      \<and> (\<forall>c. length (received st c ''message_error'' (send_message db st s data)) =
            (if c = s \<and> s \<in> set (sockets st) then 1 else 0))
      \<and> (\<forall>c ev. ev \<noteq> ''message_error'' \<longrightarrow> received st c ev (send_message db st s data) = []))
   \<and> (truthy (js_get body ''ticketId'') \<and> truthy (js_get body ''newStatus'')
       \<and> (\<not> getConnection db \<or> select_ticket db [js_get body ''ticketId''] = None) \<longrightarrow>
      fst (fst (broadcast_status_update db now st body)) = 500
      \<and> js_get (snd (fst (broadcast_status_update db now st body))) ''success'' = JBool False
      \<and> (\<forall>c ev. received st c ev (snd (broadcast_status_update db now st body)) = []))"
proof (intro conjI impI)
  assume a: "getConnection db \<and> insert_ticket_message db (insert_params data) = None"
  then show effs: "send_message db st s data =
        [Execute INSERT_ticket_message (insert_params data),
         Emit (To_socket s) ''message_error'' [(''error'', JStr ''Failed to send message'')]]"
    by (simp add: send_message_def Let_def message_error_def)
  show "\<forall>c. length (received st c ''message_error'' (send_message db st s data)) =
            (if c = s \<and> s \<in> set (sockets st) then 1 else 0)"
    unfolding effs by (auto simp: received_def)
  show "\<forall>c ev. ev \<noteq> ''message_error'' \<longrightarrow> received st c ev (send_message db st s data) = []"
    unfolding effs by (auto simp: received_def)
next
  assume b: "truthy (js_get body ''ticketId'') \<and> truthy (js_get body ''newStatus'')
       \<and> (\<not> getConnection db \<or> select_ticket db [js_get body ''ticketId''] = None)"
  then have r: "broadcast_status_update db now st body =
      ((500, [(''success'', JBool False), (''error'', JStr ''Failed to broadcast status update'')]),
       if getConnection db then [Execute SELECT_ticket [js_get body ''ticketId'']] else [])"
    by (auto simp: broadcast_status_update_def Let_def)
  show "fst (fst (broadcast_status_update db now st body)) = 500"
    unfolding r by simp
  show "js_get (snd (fst (broadcast_status_update db now st body))) ''success'' = JBool False"
    unfolding r by (simp add: js_get_def)
  show "\<forall>c ev. received st c ev (snd (broadcast_status_update db now st body)) = []"
    unfolding r by (simp add: received_def)
qed

theorem insert_failure_reports_to_sender_witness:
  "send_message broken_storage (run init owner_and_admin) ''a1'' admin_hello =
     [Execute INSERT_ticket_message [JNum 7, JStr ''admin'', JNum 1, JStr ''Hello'', JNull],
      Emit (To_socket ''a1'') ''message_error'' [(''error'', JStr ''Failed to send message'')]]
   \<and> length (received (run init owner_and_admin) ''a1'' ''message_error''
        (send_message broken_storage (run init owner_and_admin) ''a1'' admin_hello)) = 1
   \<and> received (run init owner_and_admin) ''u1'' ''new_admin_message''
        (send_message broken_storage (run init owner_and_admin) ''a1'' admin_hello) = []
   \<and> fst (fst (broadcast_status_update broken_storage noon (run init owner_and_admin) close7)) = 500"
proof -
  let ?st = "run init owner_and_admin"
  have a: "getConnection broken_storage
      \<and> insert_ticket_message broken_storage (insert_params admin_hello) = None"
    by code_simp
  have b: "truthy (js_get close7 ''ticketId'') \<and> truthy (js_get close7 ''newStatus'')
      \<and> (\<not> getConnection broken_storage \<or> select_ticket broken_storage [js_get close7 ''ticketId''] = None)"
    by code_simp
  have ps: "insert_params admin_hello = [JNum 7, JStr ''admin'', JNum 1, JStr ''Hello'', JNull]"
    by code_simp
  have open_a1: "''a1'' \<in> set (sockets ?st)"
    by code_simp
  have other: "''new_admin_message'' \<noteq> ''message_error''"
    by simp
  note sm = insert_failure_reports_to_sender [of broken_storage admin_hello ?st "''a1''" close7 noon,
      THEN conjunct1, rule_format, OF a]
  note rest = insert_failure_reports_to_sender [of broken_storage admin_hello ?st "''a1''" close7 noon,
      THEN conjunct2, rule_format, OF b]
  from sm have e: "send_message broken_storage ?st ''a1'' admin_hello =
      [Execute INSERT_ticket_message (insert_params admin_hello),
       Emit (To_socket ''a1'') ''message_error'' [(''error'', JStr ''Failed to send message'')]]"
    by (rule conjunct1)
  have once: "length (received ?st ''a1'' ''message_error''
      (send_message broken_storage ?st ''a1'' admin_hello)) = 1"
    unfolding sm [THEN conjunct2, THEN conjunct1, rule_format] using open_a1 by simp
  have none: "received ?st ''u1'' ''new_admin_message''
      (send_message broken_storage ?st ''a1'' admin_hello) = []"
    by (rule sm [THEN conjunct2, THEN conjunct2, rule_format, OF other])
  from rest have r500: "fst (fst (broadcast_status_update broken_storage noon ?st close7)) = 500"
    by (rule conjunct1)
  from e [unfolded ps] once none r500 show ?thesis
    by (intro conjI)
qed

text \<open>
  C9, as the claim states it, fails: the \<^verbatim>\<open>connection\<close> handler stores nothing. After a
  first connection has opened, the registry has no entry for it and
  \<^verbatim>\<open>GET /health\<close> reports zero active users.
\<close>

theorem connection_entry_counterexample:
  "''u1'' \<in> set (sockets (run init [Connection ''u1'']))
   \<and> Map_get (activeUsers (run init [Connection ''u1''])) ''u1'' = None
   \<and> js_get (health noon (run init [Connection ''u1''])) ''activeUsers'' = JNum 0"
  by code_simp

text \<open>
  C9, amended. Opening a connection creates no entry. In every run, a connection that opens
  is absent from the registry from then on for as long as it has sent neither
  \<^verbatim>\<open>join_system\<close> nor \<^verbatim>\<open>join_ticket\<close>, and \<^verbatim>\<open>GET /health\<close> counts the same
  active users right after the connect as before it. Its first \<^verbatim>\<open>join_system\<close> or
  \<^verbatim>\<open>join_ticket\<close> creates the entry: \<^verbatim>\<open>join_system\<close> the fully populated one (the
  payload's \<^verbatim>\<open>userId\<close> and \<^verbatim>\<open>username\<close>, \<^verbatim>\<open>Boolean(isAdmin)\<close>,
  \<^verbatim>\<open>ticketId: null\<close>), \<^verbatim>\<open>join_ticket\<close> one that holds \<^verbatim>\<open>ticketId\<close> only.
\<close>

theorem connection_registers_nothing:
  assumes "s \<notin> set (sockets (run init evs))"
    and "\<forall>d. Join_system s d \<notin> set es \<and> Join_ticket s d \<notin> set es"
  shows "Map_get (activeUsers (run init (evs @ Connection s # es))) s = None
         \<and> js_get (health now (run init (evs @ [Connection s]))) ''activeUsers'' =
             js_get (health now (run init evs)) ''activeUsers''
         \<and> (s \<in> set (sockets (run init (evs @ Connection s # es))) \<longrightarrow>
              Map_get (activeUsers (run init (evs @ Connection s # es @ [Join_system s data]))) s =
                Some [(''userId'', js_get data ''userId''), (''username'', js_get data ''username''),
                      (''isAdmin'', JBool (truthy (js_get data ''isAdmin''))), (''ticketId'', JNull)]
              \<and> Map_get (activeUsers (run init (evs @ Connection s # es @ [Join_ticket s data]))) s =
                Some [(''ticketId'', js_get data ''ticketId'')])"
proof -
  let ?st = "run init evs"
  let ?st1 = "connection ?st s"
  let ?st2 = "run ?st1 es"
  have ok: "registry_ok ?st"
    by (simp add: registry_ok_run registry_ok_init)
  from assms(1) have r1: "run init (evs @ [Connection s]) = ?st1"
    by (simp add: run_append)
  from assms(1) have r2: "run init (evs @ Connection s # es) = ?st2"
    by (simp add: run_append)
  have r3: "run init (evs @ Connection s # es @ [e]) = deliver ?st2 e" for e
    using assms(1) by (simp add: run_append)
  have "map_of (activeUsers ?st1) s = None"
    using unregistered_when_closed [OF ok assms(1)] by (simp add: connection_def)
  then have none: "map_of (activeUsers ?st2) s = None"
    using assms(2) by (rule unregistered_run)
  have same: "js_get (health now ?st1) ''activeUsers'' = js_get (health now ?st) ''activeUsers''"
    by (simp add: health_def connection_def js_get_def)
  have full: "Map_get (activeUsers (deliver ?st2 (Join_system s data))) s =
       Some [(''userId'', js_get data ''userId''), (''username'', js_get data ''username''),
             (''isAdmin'', JBool (truthy (js_get data ''isAdmin''))), (''ticketId'', JNull)]"
    if "s \<in> set (sockets ?st2)"
    using that
    by (simp add: join_system_def Let_def Map_get_def Map_set_def update_conv' js_Boolean_def)
  have only: "Map_get (activeUsers (deliver ?st2 (Join_ticket s data))) s =
       Some [(''ticketId'', js_get data ''ticketId'')]"
    if "s \<in> set (sockets ?st2)"
    using that none
    by (simp add: join_ticket_def Let_def Map_get_def Map_set_def update_conv' js_put_def)
  from none same full only show ?thesis
    unfolding r1 r2 r3 by (simp add: Map_get_def)
qed

theorem connection_registers_nothing_witness:
  "''u1'' \<notin> set (sockets (run init [Connection ''a1'']))
   \<and> Map_get (activeUsers (run init ([Connection ''a1''] @ Connection ''u1'' #
        [Join_system ''a1'' [(''userId'', JNum 1), (''isAdmin'', JBool True)],
         Leave_ticket ''u1'' [(''ticketId'', JNum 7)]]))) ''u1'' = None
   \<and> Map_get (activeUsers (run init ([Connection ''a1''] @ Connection ''u1'' #
        [Join_system ''a1'' [(''userId'', JNum 1), (''isAdmin'', JBool True)],
         Leave_ticket ''u1'' [(''ticketId'', JNum 7)]] @
        [Join_ticket ''u1'' [(''ticketId'', JNum 7), (''userId'', JNum 42)]]))) ''u1'' =
       Some [(''ticketId'', JNum 7)]
   \<and> Map_get (activeUsers (run init ([Connection ''a1''] @ Connection ''u1'' #
        [Join_system ''a1'' [(''userId'', JNum 1), (''isAdmin'', JBool True)],
         Leave_ticket ''u1'' [(''ticketId'', JNum 7)]] @
        [Join_system ''u1'' [(''ticketId'', JNum 7), (''userId'', JNum 42)]]))) ''u1'' =
       Some [(''userId'', JNum 42), (''username'', JUndefined), (''isAdmin'', JBool False),
             (''ticketId'', JNull)]"
proof -
  let ?es = "[Join_system ''a1'' [(''userId'', JNum 1), (''isAdmin'', JBool True)],
              Leave_ticket ''u1'' [(''ticketId'', JNum 7)]]"
  let ?d = "[(''ticketId'', JNum 7), (''userId'', JNum 42)]"
  have h1: "''u1'' \<notin> set (sockets (run init [Connection ''a1'']))"
    by code_simp
  have h2: "\<forall>d. Join_system ''u1'' d \<notin> set ?es \<and> Join_ticket ''u1'' d \<notin> set ?es"
    by simp
  have opened: "''u1'' \<in> set (sockets (run init ([Connection ''a1''] @ Connection ''u1'' # ?es)))"
    by code_simp
  have v1: "[(''ticketId'', js_get ?d ''ticketId'')] = [(''ticketId'', JNum 7)]"
    by code_simp
  have v2: "[(''userId'', js_get ?d ''userId''), (''username'', js_get ?d ''username''),
             (''isAdmin'', JBool (truthy (js_get ?d ''isAdmin''))), (''ticketId'', JNull)] =
            [(''userId'', JNum 42), (''username'', JUndefined), (''isAdmin'', JBool False),
             (''ticketId'', JNull)]"
    by code_simp
  note inst = connection_registers_nothing [OF h1 h2, of noon ?d]
  note joins = inst [THEN conjunct2, THEN conjunct2, rule_format, OF opened]
  from h1 inst [THEN conjunct1] joins [THEN conjunct2, unfolded v1] joins [THEN conjunct1, unfolded v2]
  show ?thesis by (intro conjI)
qed

text \<open>
  C10. A \<^verbatim>\<open>join_ticket\<close> from a connection that has sent no \<^verbatim>\<open>join_system\<close> so far
  in the run: afterwards the registry's entry for the connection is the object holding
  \<^verbatim>\<open>ticketId\<close> and nothing else, so \<^verbatim>\<open>userId\<close>, \<^verbatim>\<open>username\<close> and
  \<^verbatim>\<open>isAdmin\<close> read \<^verbatim>\<open>undefined\<close>. The handler leaves \<^verbatim>\<open>adminSockets\<close> as it was,
  whatever \<^verbatim>\<open>isAdmin\<close> the payload carries; the connection is not in it, and no admin
  broadcast reaches the connection.
\<close>

theorem join_ticket_without_join_system:
  assumes "\<forall>d. Join_system s d \<notin> set evs"
  shows "Map_get (activeUsers (fst (join_ticket (run init evs) s data))) s =
           Some [(''ticketId'', js_get data ''ticketId'')]
         \<and> adminSockets (fst (join_ticket (run init evs) s data)) = adminSockets (run init evs)
         \<and> s \<notin> set (adminSockets (fst (join_ticket (run init evs) s data)))
         \<and> (\<forall>event payload.
              received (fst (join_ticket (run init evs) s data)) s event
                (notifyAdmins (fst (join_ticket (run init evs) s data)) event payload) = [])"
proof -
  let ?st = "run init evs"
  let ?st' = "fst (join_ticket ?st s data)"
  from assms have only: "ticket_only ?st s"
    by (simp add: ticket_only_run ticket_only_init)
  have same: "adminSockets ?st' = adminSockets ?st"
    by (simp add: join_ticket_def Let_def)
  from only have out: "s \<notin> set (adminSockets ?st')"
    by (simp add: same ticket_only_def)
  have "received ?st' s event (notifyAdmins ?st' event payload) = []" for event payload
    using out by (auto simp: received_def notifyAdmins_def filter_empty_conv)
  with ticket_only_join_ticket [OF only] same out show ?thesis
    by blast
qed

theorem join_ticket_without_join_system_witness:
  "Map_get (activeUsers (fst (join_ticket (run init [Connection ''u1'']) ''u1''
       [(''ticketId'', JNum 7), (''userId'', JNum 42), (''username'', JStr ''ann''), (''isAdmin'', JBool True)])))
     ''u1'' = Some [(''ticketId'', JNum 7)]
   \<and> ''u1'' \<notin> set (adminSockets (fst (join_ticket (run init [Connection ''u1'']) ''u1''
       [(''ticketId'', JNum 7), (''userId'', JNum 42), (''username'', JStr ''ann''), (''isAdmin'', JBool True)])))"
proof -
  let ?d = "[(''ticketId'', JNum 7), (''userId'', JNum 42), (''username'', JStr ''ann''), (''isAdmin'', JBool True)]"
  have h: "\<forall>d. Join_system ''u1'' d \<notin> set [Connection ''u1'']"
    by simp
  have v: "js_get ?d ''ticketId'' = JNum 7"
    by code_simp
  note inst = join_ticket_without_join_system [OF h, of ?d]
  from inst [THEN conjunct1, unfolded v] inst [THEN conjunct2, THEN conjunct2, THEN conjunct1]
  show ?thesis by (rule conjI)
qed

end
